theory Spec2Isabelle
  imports Complex_Main "HOL-Library.Sublist" "HOL-Library.Multiset"
begin

section \<open>JavaScript numbers, strings and dates, as far as the pages use them\<close>

text \<open>
  The pages compute with JavaScript numbers that are either integral (years, months,
  millisecond time values, string lengths) or \<open>NaN\<close>, which every getter of an
  \<open>Invalid Date\<close> returns. \<open>NaN\<close> is absorbing for the arithmetic and makes
  every comparison false.
\<close>

datatype jsnum = NaN | Num int

fun js_sub :: "jsnum \<Rightarrow> jsnum \<Rightarrow> jsnum" where
  "js_sub (Num a) (Num b) = Num (a - b)"
| "js_sub _ _ = NaN"

fun js_add :: "jsnum \<Rightarrow> jsnum \<Rightarrow> jsnum" where
  "js_add (Num a) (Num b) = Num (a + b)"
| "js_add _ _ = NaN"

fun js_mul :: "jsnum \<Rightarrow> jsnum \<Rightarrow> jsnum" where
  "js_mul (Num a) (Num b) = Num (a * b)"
| "js_mul _ _ = NaN"

fun js_lt :: "jsnum \<Rightarrow> jsnum \<Rightarrow> bool" where
  "js_lt (Num a) (Num b) = (a < b)"
| "js_lt _ _ = False"

fun js_gt :: "jsnum \<Rightarrow> jsnum \<Rightarrow> bool" where
  "js_gt (Num a) (Num b) = (a > b)"
| "js_gt _ _ = False"

fun js_ge :: "jsnum \<Rightarrow> jsnum \<Rightarrow> bool" where
  "js_ge (Num a) (Num b) = (a \<ge> b)"
| "js_ge _ _ = False"

fun js_eq :: "jsnum \<Rightarrow> jsnum \<Rightarrow> bool" where
  "js_eq (Num a) (Num b) = (a = b)"
| "js_eq _ _ = False"

text \<open>\<open>Math.floor(x / d)\<close> for an integral \<open>x\<close> and a positive integral \<open>d\<close>.\<close>

fun js_floor_div :: "jsnum \<Rightarrow> int \<Rightarrow> jsnum" where
  "js_floor_div (Num a) d = Num (a div d)"
| "js_floor_div NaN d = NaN"

text \<open>\<open>x % d\<close>: the remainder takes the sign of the dividend.\<close>

fun js_rem :: "jsnum \<Rightarrow> int \<Rightarrow> jsnum" where
  "js_rem (Num a) d = Num (sgn a * (\<bar>a\<bar> mod \<bar>d\<bar>))"
| "js_rem NaN d = NaN"

text \<open>Decimal rendering, as a template literal renders an integral number.\<close>

definition digit_char :: "nat \<Rightarrow> char" where
  "digit_char d = ''0123456789'' ! d"

fun string_of_nat :: "nat \<Rightarrow> string" where
  "string_of_nat n =
     (if n < 10 then [digit_char n] else string_of_nat (n div 10) @ [digit_char (n mod 10)])"

definition string_of_int :: "int \<Rightarrow> string" where
  "string_of_int i = (if i < 0 then CHR ''-'' # string_of_nat (nat (- i)) else string_of_nat (nat i))"

fun js_toString :: "jsnum \<Rightarrow> string" where
  "js_toString NaN = ''NaN''"
| "js_toString (Num i) = string_of_int i"

text \<open>
  A \<open>Date\<close> object is either \<open>Invalid Date\<close> or carries its time value (milliseconds
  since the epoch) together with the full year and the month (0 to 11) that
  \<open>getFullYear\<close> and \<open>getMonth\<close> report in the host's time zone.
\<close>

datatype jsdate = InvalidDate | Date (timeValue: int) (fullYear: int) (monthIndex: int)

fun getTime :: "jsdate \<Rightarrow> jsnum" where
  "getTime InvalidDate = NaN"
| "getTime (Date t y m) = Num t"

fun getFullYear :: "jsdate \<Rightarrow> jsnum" where
  "getFullYear InvalidDate = NaN"
| "getFullYear (Date t y m) = Num y"

fun getMonth :: "jsdate \<Rightarrow> jsnum" where
  "getMonth InvalidDate = NaN"
| "getMonth (Date t y m) = Num m"

text \<open>
  \<open>new Date(s)\<close>: the host's date parser is a parameter of the model; the empty string
  never parses.
\<close>

definition new_Date :: "(string \<Rightarrow> jsdate) \<Rightarrow> string \<Rightarrow> jsdate" where
  "new_Date parse s = (if s = [] then InvalidDate else parse s)"

text \<open>\<open>parts.join(' ')\<close>\<close>

fun join_space :: "string list \<Rightarrow> string" where
  "join_space [] = []"
| "join_space [p] = p"
| "join_space (p # ps) = p @ '' '' @ join_space ps"

section \<open>Career manager: duration of a career item\<close>

text \<open>
  The whole months between two \<open>Date\<close> objects, clamped below at 0, as
  \<open>calculateDuration\<close> computes them in its local \<open>totalMonths\<close>.
\<close>

definition totalMonths :: "jsdate \<Rightarrow> jsdate \<Rightarrow> jsnum" where
  "totalMonths start end' =
     (let years = js_sub (getFullYear end') (getFullYear start);
          months = js_sub (getMonth end') (getMonth start);
          total = js_add (js_mul years (Num 12)) months
      in if js_lt total (Num 0) then Num 0 else total)"

definition calculateDuration ::
  "(string \<Rightarrow> jsdate) \<Rightarrow> jsdate \<Rightarrow> string \<Rightarrow> string option \<Rightarrow> bool option \<Rightarrow> string" where
  "calculateDuration parse now startDate endDate isCurrent =
     (let start = new_Date parse startDate;
          end' = (if isCurrent = Some True then now
                  else new_Date parse (case endDate of None \<Rightarrow> [] | Some e \<Rightarrow> e));
          total = totalMonths start end';
          yearsPart = js_floor_div total 12;
          monthsPart = js_rem total 12
      in if js_eq yearsPart (Num 0) \<and> js_eq monthsPart (Num 0) then ''Less than 1 month''
         else join_space
           ((if js_gt yearsPart (Num 0)
             then [js_toString yearsPart @ '' yr'' @ (if js_gt yearsPart (Num 1) then ''s'' else [])]
             else []) @
            (if js_gt monthsPart (Num 0)
             then [js_toString monthsPart @ '' mo'' @ (if js_gt monthsPart (Num 1) then ''s'' else [])]
             else [])))"

text \<open>
  The duration text as the specification words it, for a number of whole months:
  \<open>Less than 1 month\<close> for 0, otherwise the years part and the months part, each with
  its unit in the singular for 1 and in the plural above, joined by a space, a zero
  part left out.
\<close>

definition spec_part :: "int \<Rightarrow> string \<Rightarrow> string" where
  "spec_part n unit = string_of_int n @ '' '' @ unit @ (if n = 1 then [] else ''s'')"

definition spec_duration_text :: "int \<Rightarrow> string" where
  "spec_duration_text t =
     (if t = 0 then ''Less than 1 month''
      else if t mod 12 = 0 then spec_part (t div 12) ''yr''
      else if t div 12 = 0 then spec_part (t mod 12) ''mo''
      else spec_part (t div 12) ''yr'' @ '' '' @ spec_part (t mod 12) ''mo'')"

text \<open>A host whose parser knows two date strings, for the concrete evaluations below.\<close>

definition parse0 :: "string \<Rightarrow> jsdate" where
  "parse0 s = (if s = ''2020-05-01'' then Date 1588291200000 2020 4
               else if s = ''2023-06-15'' then Date 1686787200000 2023 5
               else InvalidDate)"

definition today0 :: jsdate where
  "today0 = Date 1704067200000 2024 0"

section \<open>Messages page: the client-side filter\<close>

text \<open>
  The texts that the filter reads (query, name, email, message body) are lists of code
  units of an arbitrary type \<open>'c\<close>. The two string functions of the host are kept
  general: \<open>toLowerCase\<close> is any function on such texts, and which code units count
  as white space is any predicate \<open>isWhiteSpace\<close>. \<open>String.prototype.trim\<close> removes
  the white space code units at both ends.
\<close>

definition trim :: "('c \<Rightarrow> bool) \<Rightarrow> 'c list \<Rightarrow> 'c list" where
  "trim isWhiteSpace s = rev (dropWhile isWhiteSpace (rev (dropWhile isWhiteSpace s)))"

text \<open>\<open>s.includes(q)\<close>: \<open>q\<close> occurs in \<open>s\<close> at some position.\<close>

fun str_includes :: "'c list \<Rightarrow> 'c list \<Rightarrow> bool" where
  "str_includes [] q = (q = [])"
| "str_includes (c # s) q = (prefix q (c # s) \<or> str_includes s q)"

datatype msg_status = New | Read | Replied

fun status_string :: "msg_status \<Rightarrow> string" where
  "status_string New = ''new''"
| "status_string Read = ''read''"
| "status_string Replied = ''replied''"

record 'c message =
  m_id :: string
  m_name :: "'c list"
  m_email :: "'c list"
  m_message :: "'c list"
  m_status :: msg_status
  m_reply :: "'c list option"
  m_repliedAt :: "string option"
  m_createdAt :: string
  m_updatedAt :: string

text \<open>The state variables of \<open>MessagesPage\<close> that \<open>filterMessages\<close> reads and writes.\<close>

record 'c messages_state =
  messages :: "'c message list"
  filteredMessages :: "'c message list"
  filterStatus :: string
  searchQuery :: "'c list"

definition filterMessages ::
  "('c \<Rightarrow> bool) \<Rightarrow> ('c list \<Rightarrow> 'c list) \<Rightarrow> 'c messages_state \<Rightarrow> 'c messages_state" where
  "filterMessages isWhiteSpace toLowerCase st =
     (let filtered = messages st;
          filtered = (if filterStatus st \<noteq> ''all''
                      then filter (\<lambda>msg. status_string (m_status msg) = filterStatus st) filtered
                      else filtered);
          filtered = (if trim isWhiteSpace (searchQuery st) \<noteq> []
                      then (let query = toLowerCase (searchQuery st)
                            in filter (\<lambda>msg. str_includes (toLowerCase (m_name msg)) query \<or>
                                             str_includes (toLowerCase (m_email msg)) query \<or>
                                             str_includes (toLowerCase (m_message msg)) query) filtered)
                      else filtered)
      in st\<lparr>filteredMessages := filtered\<rparr>)"

text \<open>
  For the concrete evaluation: an inbox of ASCII texts, and the host's two functions on
  ASCII text, where lowercasing maps \<open>A\<close> to \<open>Z\<close> onto \<open>a\<close> to \<open>z\<close> and the white
  space characters are tab, line feed, vertical tab, form feed, carriage return and
  space.
\<close>

definition asciiToLowerCase :: "string \<Rightarrow> string" where
  "asciiToLowerCase s =
     map (\<lambda>c. let n = (of_char c :: nat) in if 65 \<le> n \<and> n \<le> 90 then char_of (n + 32) else c) s"

definition asciiWhiteSpace :: "char \<Rightarrow> bool" where
  "asciiWhiteSpace c = ((of_char c :: nat) \<in> {9, 10, 11, 12, 13, 32})"

definition msg0 :: "string \<Rightarrow> string \<Rightarrow> string \<Rightarrow> msg_status \<Rightarrow> char message" where
  "msg0 n e b s =
     \<lparr>m_id = n, m_name = n, m_email = e, m_message = b, m_status = s, m_reply = None,
      m_repliedAt = None, m_createdAt = ''2024-01-01'', m_updatedAt = ''2024-01-01''\<rparr>"

definition inbox0 :: "char messages_state" where
  "inbox0 =
     \<lparr>messages = [msg0 ''Ann'' ''ann@x.org'' ''Hello'' New,
                   msg0 ''Bob'' ''bob@x.org'' ''Thanks Ann'' Read,
                   msg0 ''Cy'' ''cy@x.org'' ''hi from ANN'' New,
                   msg0 ''Dee'' ''dee@x.org'' ''coffee'' New],
      filteredMessages = [], filterStatus = ''new'', searchQuery = ''aNN''\<rparr>"

section \<open>Admin settings page\<close>

text \<open>
  The password strength indicator is rendered only for a non-empty new password. The bar
  width is a percentage; the model holds it as an exact rational (the page evaluates the
  same expression in double precision, where the comparison with 100 comes out the same).
\<close>

record strength_indicator =
  barClass :: string
  barWidth :: rat
  strengthLabel :: string

definition passwordStrength :: "string \<Rightarrow> strength_indicator option" where
  "passwordStrength newPassword =
     (if newPassword = [] then None
      else Some
        \<lparr>barClass = (if 8 \<le> length newPassword then ''bg-green-500''
                     else if 6 \<le> length newPassword then ''bg-yellow-500'' else ''bg-red-500''),
         barWidth = min ((of_nat (length newPassword) / 12) * 100) 100,
         strengthLabel = (if 8 \<le> length newPassword then ''Strong password''
                          else if 6 \<le> length newPassword then ''Medium strength''
                          else ''Weak password'')\<rparr>)"

text \<open>
  What a handler does to the outside world is recorded as a list of events in the order
  in which they happen: a request is issued, the awaited request settles, a dialog is
  shown and awaited, an alert is fired without waiting, the displayed list is replaced,
  the session is updated.
\<close>

datatype http_method = GET | POST | PUT | DELETE

datatype json = JString string | JNumber int | JBool bool

datatype body = NoBody | JsonBody "(string \<times> json) list" | FormBody "(string \<times> string) list"

datatype icon = Success | Error | Warning

datatype event =
    Request http_method string body
  | Received
  | Confirm string
  | Alert icon string string
  | ListReplaced
  | SessionUpdate string

text \<open>
  The outcome of an awaited mutating \<open>fetch\<close>: the promise rejects, or it resolves to a
  response whose \<open>ok\<close> flag is set or not.
\<close>

datatype reply = Rejected | NotOk | Ok

text \<open>\<open>JSON.stringify\<close> of an object literal leaves out a property that is undefined.\<close>

fun json_object :: "(string \<times> json option) list \<Rightarrow> (string \<times> json) list" where
  "json_object [] = []"
| "json_object ((k, None) # kvs) = json_object kvs"
| "json_object ((k, Some v) # kvs) = (k, v) # json_object kvs"

record form_data =
  email :: string
  currentPassword :: string
  newPassword :: string
  confirmPassword :: string

datatype notification_type = NSuccess | NError

record settings_state =
  formData :: form_data
  loading :: bool
  notification :: "(notification_type \<times> string) option"

text \<open>
  The reply to the settings request: \<open>fetch\<close> or \<open>res.json()\<close> throws an error with a
  message, or the response arrives with its \<open>ok\<close> flag and the \<open>error\<close> property of its
  body. The session update that follows a changed email resolves (\<open>None\<close>) or throws.
\<close>

datatype settings_reply = Threw string | Resp bool "string option"

definition handleSubmit ::
  "string option \<Rightarrow> settings_reply \<Rightarrow> string option \<Rightarrow> settings_state \<Rightarrow>
     event list \<times> settings_state" where
  "handleSubmit sessionEmail res updateError st =
     (let fd = formData st;
          st1 = st\<lparr>loading := True, notification := None\<rparr>
      in if newPassword fd \<noteq> [] \<and> newPassword fd \<noteq> confirmPassword fd
         then ([], st1\<lparr>notification := Some (NError, ''New passwords do not match''),
                       loading := False\<rparr>)
         else if newPassword fd \<noteq> [] \<and> length (newPassword fd) < 6
         then ([], st1\<lparr>notification :=
                         Some (NError, ''New password must be at least 6 characters long''),
                       loading := False\<rparr>)
         else
           (let req = Request PUT ''/api/admin/settings''
                        (JsonBody (json_object
                           [(''email'', Some (JString (email fd))),
                            (''currentPassword'', Some (JString (currentPassword fd))),
                            (''newPassword'',
                               if newPassword fd \<noteq> [] then Some (JString (newPassword fd))
                               else None)]))
            in case res of
                 Threw msg \<Rightarrow>
                   ([req, Received], st1\<lparr>notification := Some (NError, msg), loading := False\<rparr>)
               | Resp ok err \<Rightarrow>
                   if \<not> ok
                   then ([req, Received],
                         st1\<lparr>notification :=
                               Some (NError,
                                 (case err of None \<Rightarrow> ''Something went wrong''
                                  | Some e \<Rightarrow> if e = [] then ''Something went wrong'' else e)),
                             loading := False\<rparr>)
                   else
                     (let st2 = st1\<lparr>notification := Some (NSuccess, ''Profile updated successfully!''),
                                     formData := fd\<lparr>currentPassword := [], newPassword := [],
                                                       confirmPassword := []\<rparr>\<rparr>
                      in if Some (email fd) \<noteq> sessionEmail
                         then (case updateError of
                                 None \<Rightarrow> ([req, Received, SessionUpdate (email fd)],
                                          st2\<lparr>loading := False\<rparr>)
                               | Some msg \<Rightarrow> ([req, Received, SessionUpdate (email fd)],
                                          st2\<lparr>notification := Some (NError, msg),
                                              loading := False\<rparr>))
                         else ([req, Received], st2\<lparr>loading := False\<rparr>))))"

definition settings0 :: "string \<Rightarrow> string \<Rightarrow> settings_state" where
  "settings0 new confirm =
     \<lparr>formData = \<lparr>email = ''a@x.org'', currentPassword = ''old-secret'', newPassword = new,
                   confirmPassword = confirm\<rparr>,
      loading = False, notification = None\<rparr>"

section \<open>The manager pages\<close>

text \<open>
  Each manager page keeps the displayed list in component state and has three handlers:
  one fetches the list, \<open>onSubmit\<close> creates or updates an item, and one deletes an item
  after a confirmation dialog. A handler is modelled as a function from what the outside
  world answers (the user's choice in the dialog, the reply to the mutating request, the
  reply to the re-fetch that follows a success) and the page state to the events it
  causes, in order, and the new page state. The state of the form library (\<open>reset\<close>) and
  the file input are not part of the model.
\<close>

text \<open>
  The reply to a fetch of the list: the promise rejects (or \<open>json()\<close> throws), the
  response is not ok, or it is ok and carries the list.
\<close>

datatype 'a get_reply = GetRejected | GetNotOk | GetOk "'a list"

text \<open>An \<open>_id\<close> inside a template literal; an undefined one renders as \<open>undefined\<close>.\<close>

definition id_string :: "string option \<Rightarrow> string" where
  "id_string i = (case i of None \<Rightarrow> ''undefined'' | Some s \<Rightarrow> s)"

text \<open>Truthiness of an optional string: defined and not empty.\<close>

definition truthy :: "string option \<Rightarrow> bool" where
  "truthy i = (case i of None \<Rightarrow> False | Some s \<Rightarrow> s \<noteq> [])"

definition json_string :: "string option \<Rightarrow> json option" where
  "json_string v = map_option JString v"

subsection \<open>Gallery\<close>

record gallery_item =
  g_id :: "string option"
  g_title :: string
  g_imageUrl :: string
  g_cloudinaryId :: string

text \<open>The submitted form: the title and the selected files (by name), if any.\<close>

record gallery_form =
  gf_title :: string
  gf_image :: "string list option"

record gallery_state =
  gallery :: "gallery_item list"
  g_uploading :: bool
  g_editingItem :: "gallery_item option"
  g_previewImage :: "string option"

definition fetchGallery ::
  "gallery_item get_reply \<Rightarrow> gallery_state \<Rightarrow> event list \<times> gallery_state" where
  "fetchGallery res st =
     (case res of
        GetOk data \<Rightarrow>
          ([Request GET ''/api/gallery'' NoBody, Received, ListReplaced], st\<lparr>gallery := data\<rparr>)
      | _ \<Rightarrow>
          ([Request GET ''/api/gallery'' NoBody, Received,
            Alert Error ''Error!'' ''Failed to fetch gallery items''], st))"

definition onSubmit_gallery ::
  "gallery_form \<Rightarrow> reply \<Rightarrow> gallery_item get_reply \<Rightarrow> gallery_state \<Rightarrow>
     event list \<times> gallery_state" where
  "onSubmit_gallery data res refetch st =
     (let formData = FormBody ((''title'', gf_title data) #
                        (case gf_image data of Some (f # fs) \<Rightarrow> [(''image'', f)] | _ \<Rightarrow> []));
          url = (case g_editingItem st of
                   Some e \<Rightarrow> ''/api/gallery/'' @ id_string (g_id e) | None \<Rightarrow> ''/api/gallery'');
          method = (case g_editingItem st of Some e \<Rightarrow> PUT | None \<Rightarrow> POST);
          editing = (g_editingItem st \<noteq> None)
      in case res of
           Ok \<Rightarrow>
             (let (evs, st') = fetchGallery refetch (st\<lparr>g_editingItem := None, g_previewImage := None\<rparr>)
              in ([Request method url formData, Received,
                   Alert Success ''Success!''
                     (''Image '' @ (if editing then ''updated'' else ''uploaded'') @ '' successfully'')]
                  @ evs,
                  st'\<lparr>g_uploading := False\<rparr>))
         | _ \<Rightarrow>
             ([Request method url formData, Received,
               Alert Error ''Error!''
                 (''Failed to '' @ (if editing then ''update'' else ''upload'') @ '' image'')],
              st\<lparr>g_uploading := False\<rparr>))"

definition deleteImage ::
  "string \<Rightarrow> bool \<Rightarrow> reply \<Rightarrow> gallery_item get_reply \<Rightarrow> gallery_state \<Rightarrow>
     event list \<times> gallery_state" where
  "deleteImage ident isConfirmed res refetch st =
     (if isConfirmed
      then (case res of
              Ok \<Rightarrow>
                (let (evs, st') = fetchGallery refetch st
                 in ([Confirm ''Are you sure?'', Request DELETE (''/api/gallery/'' @ ident) NoBody,
                      Received, Alert Success ''Deleted!'' ''Image has been deleted.''] @ evs, st'))
            | _ \<Rightarrow>
                ([Confirm ''Are you sure?'', Request DELETE (''/api/gallery/'' @ ident) NoBody,
                  Received, Alert Error ''Error!'' ''Failed to delete image''], st))
      else ([Confirm ''Are you sure?''], st))"

subsection \<open>Certificates\<close>

record certificate =
  cert_id :: "string option"
  cert_title :: string
  cert_imageUrl :: string
  cert_cloudinaryId :: string
  cert_date :: "string option"

record certificate_form =
  cf_title :: string
  cf_date :: "string option"
  cf_image :: "string list option"

record certificates_state =
  certificates :: "certificate list"
  cert_uploading :: bool
  cert_previewImage :: "string option"
  editingCertificate :: "certificate option"
  isEditMode :: bool

definition fetchCertificates ::
  "certificate get_reply \<Rightarrow> certificates_state \<Rightarrow> event list \<times> certificates_state" where
  "fetchCertificates res st =
     (case res of
        GetOk data \<Rightarrow>
          ([Request GET ''/api/certificates'' NoBody, Received, ListReplaced],
           st\<lparr>certificates := data\<rparr>)
      | _ \<Rightarrow>
          ([Request GET ''/api/certificates'' NoBody, Received,
            Alert Error ''Error!'' ''Failed to fetch certificates''], st))"

definition onSubmit_certificates ::
  "certificate_form \<Rightarrow> reply \<Rightarrow> certificate get_reply \<Rightarrow> certificates_state \<Rightarrow>
     event list \<times> certificates_state" where
  "onSubmit_certificates data res refetch st =
     (let formData = FormBody ((''title'', cf_title data) #
                        (if truthy (cf_date data) then [(''date'', id_string (cf_date data))] else []) @
                        (case cf_image data of Some (f # fs) \<Rightarrow> [(''image'', f)] | _ \<Rightarrow> []));
          url = (case editingCertificate st of
                   Some c \<Rightarrow> if isEditMode st then ''/api/certificates/'' @ id_string (cert_id c)
                             else ''/api/certificates''
                 | None \<Rightarrow> ''/api/certificates'');
          method = (if isEditMode st then PUT else POST)
      in case res of
           Ok \<Rightarrow>
             (let (evs, st') = fetchCertificates refetch
                                 (st\<lparr>cert_previewImage := None, isEditMode := False,
                                     editingCertificate := None\<rparr>)
              in ([Request method url formData, Received,
                   Alert Success ''Success!''
                     (''Certificate '' @ (if isEditMode st then ''updated'' else ''uploaded'') @
                      '' successfully'')]
                  @ evs,
                  st'\<lparr>cert_uploading := False\<rparr>))
         | _ \<Rightarrow>
             ([Request method url formData, Received,
               Alert Error ''Error!''
                 (''Failed to '' @ (if isEditMode st then ''update'' else ''upload'') @
                  '' certificate'')],
              st\<lparr>cert_uploading := False\<rparr>))"

definition deleteCertificate ::
  "string \<Rightarrow> bool \<Rightarrow> reply \<Rightarrow> certificate get_reply \<Rightarrow> certificates_state \<Rightarrow>
     event list \<times> certificates_state" where
  "deleteCertificate ident isConfirmed res refetch st =
     (if isConfirmed
      then (case res of
              Ok \<Rightarrow>
                (let (evs, st') = fetchCertificates refetch st
                 in ([Confirm ''Are you sure?'',
                      Request DELETE (''/api/certificates/'' @ ident) NoBody, Received,
                      Alert Success ''Deleted!'' ''Certificate has been deleted.''] @ evs, st'))
            | _ \<Rightarrow>
                ([Confirm ''Are you sure?'',
                  Request DELETE (''/api/certificates/'' @ ident) NoBody, Received,
                  Alert Error ''Error!'' ''Failed to delete certificate''], st))
      else ([Confirm ''Are you sure?''], st))"

subsection \<open>Courses\<close>

record course_form =
  course_name :: string
  course_description :: string

record course = course_form +
  course_id :: "string option"

record courses_state =
  courses :: "course list"
  editingCourse :: "course option"
  courses_isLoading :: bool

definition fetchCourses ::
  "course get_reply \<Rightarrow> courses_state \<Rightarrow> event list \<times> courses_state" where
  "fetchCourses res st =
     (case res of
        GetOk data \<Rightarrow>
          ([Request GET ''/api/courses'' NoBody, Received, ListReplaced],
           st\<lparr>courses := data, courses_isLoading := False\<rparr>)
      | _ \<Rightarrow>
          ([Request GET ''/api/courses'' NoBody, Received,
            Alert Error ''Error!'' ''Failed to fetch courses''], st\<lparr>courses_isLoading := False\<rparr>))"

definition onSubmit_courses ::
  "course_form \<Rightarrow> reply \<Rightarrow> course get_reply \<Rightarrow> courses_state \<Rightarrow>
     event list \<times> courses_state" where
  "onSubmit_courses data res refetch st =
     (let payload = JsonBody (json_object
                      [(''name'', Some (JString (course_name data))),
                       (''description'', Some (JString (course_description data)))]);
          updating = (case editingCourse st of Some c \<Rightarrow> truthy (course_id c) | None \<Rightarrow> False);
          req = (case editingCourse st of
                   Some c \<Rightarrow> if truthy (course_id c)
                             then Request PUT (''/api/courses/'' @ id_string (course_id c)) payload
                             else Request POST ''/api/courses'' payload
                 | None \<Rightarrow> Request POST ''/api/courses'' payload)
      in case res of
           Ok \<Rightarrow>
             (let (evs, st') = fetchCourses refetch (st\<lparr>editingCourse := None\<rparr>)
              in ([req, Received,
                   (if updating then Alert Success ''Updated!'' ''Course updated successfully''
                    else Alert Success ''Created!'' ''Course created successfully'')] @ evs, st'))
         | _ \<Rightarrow> ([req, Received, Alert Error ''Error!'' ''Failed to save course''], st))"

definition deleteCourse ::
  "string \<Rightarrow> bool \<Rightarrow> reply \<Rightarrow> course get_reply \<Rightarrow> courses_state \<Rightarrow>
     event list \<times> courses_state" where
  "deleteCourse ident isConfirmed res refetch st =
     (if isConfirmed
      then (case res of
              Ok \<Rightarrow>
                (let (evs, st') = fetchCourses refetch st
                 in ([Confirm ''Are you sure?'', Request DELETE (''/api/courses/'' @ ident) NoBody,
                      Received, Alert Success ''Deleted!'' ''Course has been deleted.''] @ evs, st'))
            | _ \<Rightarrow>
                ([Confirm ''Are you sure?'', Request DELETE (''/api/courses/'' @ ident) NoBody,
                  Received, Alert Error ''Error!'' ''Failed to delete course''], st))
      else ([Confirm ''Are you sure?''], st))"

subsection \<open>Career\<close>

text \<open>
  \<open>Array.prototype.sort\<close> with a comparator: the sort is stable, an element goes behind
  another only when the comparator's result for the two is greater than 0, and a result
  of \<open>NaN\<close> counts as 0. It is modelled as a stable insertion sort.
\<close>

fun js_insort :: "('a \<Rightarrow> 'a \<Rightarrow> jsnum) \<Rightarrow> 'a \<Rightarrow> 'a list \<Rightarrow> 'a list" where
  "js_insort cmp x [] = [x]"
| "js_insort cmp x (y # ys) =
     (if js_gt (cmp x y) (Num 0) then y # js_insort cmp x ys else x # y # ys)"

definition js_sort :: "('a \<Rightarrow> 'a \<Rightarrow> jsnum) \<Rightarrow> 'a list \<Rightarrow> 'a list" where
  "js_sort cmp xs = foldr (js_insort cmp) xs []"

record career_form =
  workplace :: string
  position :: string
  startDate :: string
  endDate :: "string option"
  isCurrent :: bool

record career_item = career_form +
  career_id :: "string option"

record career_state =
  career :: "career_item list"
  career_editingItem :: "career_item option"
  career_isSubmitting :: bool

text \<open>\<open>new Date(a.startDate).getTime()\<close>, the time value of an item's start date.\<close>

definition startTime :: "(string \<Rightarrow> jsdate) \<Rightarrow> career_item \<Rightarrow> jsnum" where
  "startTime parse a = getTime (new_Date parse (startDate a))"

text \<open>The comparator of \<open>fetchCareer\<close>: the time of \<open>b\<close> minus the time of \<open>a\<close>.\<close>

definition byStartDateDesc :: "(string \<Rightarrow> jsdate) \<Rightarrow> career_item \<Rightarrow> career_item \<Rightarrow> jsnum" where
  "byStartDateDesc parse a b = js_sub (startTime parse b) (startTime parse a)"

definition fetchCareer ::
  "(string \<Rightarrow> jsdate) \<Rightarrow> career_item get_reply \<Rightarrow> career_state \<Rightarrow>
     event list \<times> career_state" where
  "fetchCareer parse res st =
     (case res of
        GetOk data \<Rightarrow>
          (let sortedData = js_sort (byStartDateDesc parse) data
           in ([Request GET ''/api/career'' NoBody, Received, ListReplaced],
               st\<lparr>career := sortedData\<rparr>))
      | _ \<Rightarrow>
          ([Request GET ''/api/career'' NoBody, Received,
            Alert Error ''Error!'' ''Failed to fetch career items''], st))"

text \<open>
  The object that \<open>onSubmit\<close> serialises: the form data with \<open>endDate\<close> replaced by
  undefined when \<open>isCurrent\<close> is set.
\<close>

definition submitData :: "career_form \<Rightarrow> (string \<times> json) list" where
  "submitData data =
     json_object
       [(''workplace'', Some (JString (workplace data))),
        (''position'', Some (JString (position data))),
        (''startDate'', Some (JString (startDate data))),
        (''endDate'', if isCurrent data then None else json_string (endDate data)),
        (''isCurrent'', Some (JBool (isCurrent data)))]"

definition onSubmit_career ::
  "(string \<Rightarrow> jsdate) \<Rightarrow> career_form \<Rightarrow> reply \<Rightarrow> career_item get_reply \<Rightarrow> career_state \<Rightarrow>
     event list \<times> career_state" where
  "onSubmit_career parse data res refetch st =
     (let payload = JsonBody (submitData data);
          updating = (case career_editingItem st of Some c \<Rightarrow> truthy (career_id c) | None \<Rightarrow> False);
          req = (case career_editingItem st of
                   Some c \<Rightarrow> if truthy (career_id c)
                             then Request PUT (''/api/career/'' @ id_string (career_id c)) payload
                             else Request POST ''/api/career'' payload
                 | None \<Rightarrow> Request POST ''/api/career'' payload)
      in case res of
           Ok \<Rightarrow>
             (let (evs, st') = fetchCareer parse refetch (st\<lparr>career_editingItem := None\<rparr>)
              in ([req, Received,
                   (if updating then Alert Success ''Updated!'' ''Career item updated successfully''
                    else Alert Success ''Created!'' ''Career item created successfully'')] @ evs,
                  st'\<lparr>career_isSubmitting := False\<rparr>))
         | _ \<Rightarrow> ([req, Received, Alert Error ''Error!'' ''Failed to save career item''],
                 st\<lparr>career_isSubmitting := False\<rparr>))"

definition deleteCareerItem ::
  "(string \<Rightarrow> jsdate) \<Rightarrow> string \<Rightarrow> bool \<Rightarrow> reply \<Rightarrow> career_item get_reply \<Rightarrow> career_state \<Rightarrow>
     event list \<times> career_state" where
  "deleteCareerItem parse ident isConfirmed res refetch st =
     (if isConfirmed
      then (case res of
              Ok \<Rightarrow>
                (let (evs, st') = fetchCareer parse refetch st
                 in ([Confirm ''Are you sure?'', Request DELETE (''/api/career/'' @ ident) NoBody,
                      Received, Alert Success ''Deleted!'' ''Career item has been deleted.''] @ evs,
                     st'))
            | _ \<Rightarrow>
                ([Confirm ''Are you sure?'', Request DELETE (''/api/career/'' @ ident) NoBody,
                  Received, Alert Error ''Error!'' ''Failed to delete career item''], st))
      else ([Confirm ''Are you sure?''], st))"

subsection \<open>Videos\<close>

datatype embed_type = Embed | Link

fun embed_string :: "embed_type \<Rightarrow> string" where
  "embed_string Embed = ''embed''"
| "embed_string Link = ''link''"

record video_form =
  video_title :: string
  video_description :: string
  video_url :: string
  embedType :: embed_type

record video = video_form +
  video_id :: "string option"

record videos_state =
  videos :: "video list"
  editingVideo :: "video option"
  videos_isSubmitting :: bool
  previewUrl :: string

definition fetchVideos ::
  "video get_reply \<Rightarrow> videos_state \<Rightarrow> event list \<times> videos_state" where
  "fetchVideos res st =
     (case res of
        GetOk data \<Rightarrow>
          ([Request GET ''/api/videos'' NoBody, Received, ListReplaced], st\<lparr>videos := data\<rparr>)
      | _ \<Rightarrow>
          ([Request GET ''/api/videos'' NoBody, Received,
            Alert Error ''Error!'' ''Failed to fetch videos''], st))"

definition onSubmit_videos ::
  "video_form \<Rightarrow> reply \<Rightarrow> video get_reply \<Rightarrow> videos_state \<Rightarrow>
     event list \<times> videos_state" where
  "onSubmit_videos data res refetch st =
     (let payload = JsonBody (json_object
                      [(''title'', Some (JString (video_title data))),
                       (''description'', Some (JString (video_description data))),
                       (''url'', Some (JString (video_url data))),
                       (''embedType'', Some (JString (embed_string (embedType data))))]);
          updating = (case editingVideo st of Some v \<Rightarrow> truthy (video_id v) | None \<Rightarrow> False);
          req = (case editingVideo st of
                   Some v \<Rightarrow> if truthy (video_id v)
                             then Request PUT (''/api/videos/'' @ id_string (video_id v)) payload
                             else Request POST ''/api/videos'' payload
                 | None \<Rightarrow> Request POST ''/api/videos'' payload)
      in case res of
           Ok \<Rightarrow>
             (let (evs, st') = fetchVideos refetch (st\<lparr>editingVideo := None, previewUrl := []\<rparr>)
              in ([req, Received,
                   (if updating then Alert Success ''Updated!'' ''Video updated successfully''
                    else Alert Success ''Created!'' ''Video created successfully'')] @ evs,
                  st'\<lparr>videos_isSubmitting := False\<rparr>))
         | _ \<Rightarrow> ([req, Received, Alert Error ''Error!'' ''Failed to save video''],
                 st\<lparr>videos_isSubmitting := False\<rparr>))"

definition deleteVideo ::
  "string \<Rightarrow> bool \<Rightarrow> reply \<Rightarrow> video get_reply \<Rightarrow> videos_state \<Rightarrow>
     event list \<times> videos_state" where
  "deleteVideo ident isConfirmed res refetch st =
     (if isConfirmed
      then (case res of
              Ok \<Rightarrow>
                (let (evs, st') = fetchVideos refetch st
                 in ([Confirm ''Are you sure?'', Request DELETE (''/api/videos/'' @ ident) NoBody,
                      Received, Alert Success ''Deleted!'' ''Video has been deleted.''] @ evs, st'))
            | _ \<Rightarrow>
                ([Confirm ''Are you sure?'', Request DELETE (''/api/videos/'' @ ident) NoBody,
                  Received, Alert Error ''Error!'' ''Failed to delete video''], st))
      else ([Confirm ''Are you sure?''], st))"

subsection \<open>Skills\<close>

record skill_form =
  skill_name :: string
  skill_order :: "int option"
  skill_icon :: string

record skill = skill_form +
  skill_id :: "string option"

record skills_state =
  skills :: "skill list"
  editingSkill :: "skill option"
  skills_isLoading :: bool
  selectedIcon :: string
  showIconPicker :: bool

definition fetchSkills ::
  "skill get_reply \<Rightarrow> skills_state \<Rightarrow> event list \<times> skills_state" where
  "fetchSkills res st =
     (case res of
        GetOk data \<Rightarrow>
          ([Request GET ''/api/skills'' NoBody, Received, ListReplaced],
           st\<lparr>skills := data, skills_isLoading := False\<rparr>)
      | _ \<Rightarrow>
          ([Request GET ''/api/skills'' NoBody, Received,
            Alert Error ''Error!'' ''Failed to fetch skills''], st\<lparr>skills_isLoading := False\<rparr>))"

definition onSubmit_skills ::
  "skill_form \<Rightarrow> reply \<Rightarrow> skill get_reply \<Rightarrow> skills_state \<Rightarrow>
     event list \<times> skills_state" where
  "onSubmit_skills data res refetch st =
     (let payload = JsonBody (json_object
                      [(''name'', Some (JString (skill_name data))),
                       (''order'', map_option JNumber (skill_order data)),
                       (''icon'', Some (JString (skill_icon data)))]);
          updating = (case editingSkill st of Some s \<Rightarrow> truthy (skill_id s) | None \<Rightarrow> False);
          req = (case editingSkill st of
                   Some s \<Rightarrow> if truthy (skill_id s)
                             then Request PUT (''/api/skills/'' @ id_string (skill_id s)) payload
                             else Request POST ''/api/skills'' payload
                 | None \<Rightarrow> Request POST ''/api/skills'' payload)
      in case res of
           Ok \<Rightarrow>
             (let (evs, st') = fetchSkills refetch
                                 (st\<lparr>editingSkill := None, selectedIcon := ''FaCoffee'',
                                     showIconPicker := False\<rparr>)
              in ([req, Received,
                   (if updating then Alert Success ''Updated!'' ''Skill updated successfully''
                    else Alert Success ''Created!'' ''Skill created successfully'')] @ evs, st'))
         | _ \<Rightarrow> ([req, Received, Alert Error ''Error!'' ''Failed to save skill''], st))"

definition deleteSkill ::
  "string \<Rightarrow> bool \<Rightarrow> reply \<Rightarrow> skill get_reply \<Rightarrow> skills_state \<Rightarrow>
     event list \<times> skills_state" where
  "deleteSkill ident isConfirmed res refetch st =
     (if isConfirmed
      then (case res of
              Ok \<Rightarrow>
                (let (evs, st') = fetchSkills refetch st
                 in ([Confirm ''Are you sure?'', Request DELETE (''/api/skills/'' @ ident) NoBody,
                      Received, Alert Success ''Deleted!'' ''Skill has been deleted.''] @ evs, st'))
            | _ \<Rightarrow>
                ([Confirm ''Are you sure?'', Request DELETE (''/api/skills/'' @ ident) NoBody,
                  Received, Alert Error ''Error!'' ''Failed to delete skill''], st))
      else ([Confirm ''Are you sure?''], st))"

subsection \<open>Footer\<close>

text \<open>
  The footer renders the current year and the month of the last update (formatted by the
  host's \<open>toLocaleDateString\<close>). It has no state and no handler.
\<close>

record footer_view =
  currentYear :: jsnum
  lastUpdated :: string

definition Footer :: "jsdate \<Rightarrow> (jsdate \<Rightarrow> string) \<Rightarrow> event list \<times> footer_view" where
  "Footer now toLocaleDateString =
     ([], \<lparr>currentYear = getFullYear now, lastUpdated = toLocaleDateString now\<rparr>)"

subsection \<open>Reading a trace\<close>

fun is_request :: "event \<Rightarrow> bool" where
  "is_request (Request m u b) = True"
| "is_request _ = False"

text \<open>The requests of a trace, as method and URL, in order.\<close>

fun requests :: "event list \<Rightarrow> (http_method \<times> string) list" where
  "requests [] = []"
| "requests (Request m u b # es) = (m, u) # requests es"
| "requests (e # es) = requests es"



subsection \<open>Concrete inputs for the evaluations\<close>

definition job0 :: "string \<Rightarrow> string \<Rightarrow> career_item" where
  "job0 w s = \<lparr>workplace = w, position = ''Barista'', startDate = s, endDate = None,
               isCurrent = True, career_id = Some w\<rparr>"

definition career0 :: career_state where
  "career0 = \<lparr>career = [], career_editingItem = None, career_isSubmitting = False\<rparr>"

definition careerForm0 :: "bool \<Rightarrow> career_form" where
  "careerForm0 c = \<lparr>workplace = ''Roastery'', position = ''Barista'', startDate = ''2020-05-01'',
                    endDate = Some ''2023-06-15'', isCurrent = c\<rparr>"

definition skills0 :: skills_state where
  "skills0 = \<lparr>skills = [], editingSkill = None, skills_isLoading = False,
              selectedIcon = ''FaCoffee'', showIconPicker = False\<rparr>"

definition skillForm0 :: skill_form where
  "skillForm0 = \<lparr>skill_name = ''Latte art'', skill_order = Some 1, skill_icon = ''FaCoffee''\<rparr>"

definition skill0 :: skill where
  "skill0 = \<lparr>skill_name = ''Latte art'', skill_order = Some 1, skill_icon = ''FaCoffee'',
              skill_id = Some ''s1''\<rparr>"

definition gallery0 :: gallery_state where
  "gallery0 = \<lparr>gallery = [], g_uploading = False, g_editingItem = None, g_previewImage = None\<rparr>"

definition galleryItem0 :: gallery_item where
  "galleryItem0 = \<lparr>g_id = Some ''g1'', g_title = ''Espresso'', g_imageUrl = ''https://x.org/g1.png'',
                    g_cloudinaryId = ''cl-g1''\<rparr>"

definition galleryForm0 :: gallery_form where
  "galleryForm0 = \<lparr>gf_title = ''Espresso'', gf_image = Some [''g1.png'']\<rparr>"

definition certificates0 :: certificates_state where
  "certificates0 = \<lparr>certificates = [], cert_uploading = False, cert_previewImage = None,
                     editingCertificate = None, isEditMode = False\<rparr>"

definition certificate0 :: certificate where
  "certificate0 = \<lparr>cert_id = Some ''k1'', cert_title = ''Barista diploma'',
                    cert_imageUrl = ''https://x.org/k1.png'', cert_cloudinaryId = ''cl-k1'',
                    cert_date = Some ''2021-03-01''\<rparr>"

definition certificateForm0 :: certificate_form where
  "certificateForm0 = \<lparr>cf_title = ''Barista diploma'', cf_date = Some ''2021-03-01'',
                        cf_image = None\<rparr>"

definition courses0 :: courses_state where
  "courses0 = \<lparr>courses = [], editingCourse = None, courses_isLoading = False\<rparr>"

definition courseForm0 :: course_form where
  "courseForm0 = \<lparr>course_name = ''Brewing'', course_description = ''Filter and espresso''\<rparr>"

definition course0 :: course where
  "course0 = \<lparr>course_name = ''Brewing'', course_description = ''Filter and espresso'',
               course_id = Some ''c1''\<rparr>"

definition videos0 :: videos_state where
  "videos0 = \<lparr>videos = [], editingVideo = None, videos_isSubmitting = False, previewUrl = []\<rparr>"

definition videoForm0 :: video_form where
  "videoForm0 = \<lparr>video_title = ''Pour over'', video_description = ''A demonstration'',
                  video_url = ''https://youtu.be/abc'', embedType = Embed\<rparr>"

definition video0 :: video where
  "video0 = \<lparr>video_title = ''Pour over'', video_description = ''A demonstration'',
              video_url = ''https://youtu.be/abc'', embedType = Embed, video_id = Some ''v1''\<rparr>"

definition monthYear0 :: "jsdate \<Rightarrow> string" where
  "monthYear0 d = ''January 2024''"

subsection \<open>Properties of a handler's outcome\<close>

text \<open>
  A delete handler is guarded by its dialog: the confirmation dialog is all that happens
  before the first request; when the user confirms, that request is the \<open>DELETE\<close> to
  the item's URL; when the user cancels, there is no request and the page state is as
  before.
\<close>

definition delete_after_confirm :: "string \<Rightarrow> bool \<Rightarrow> 's \<Rightarrow> event list \<times> 's \<Rightarrow> bool" where
  "delete_after_confirm url isConfirmed st out \<longleftrightarrow>
     takeWhile (\<lambda>e. \<not> is_request e) (fst out) = [Confirm ''Are you sure?''] \<and>
     (if isConfirmed then hd (requests (fst out)) = (DELETE, url)
      else requests (fst out) = [] \<and> snd out = st)"





declare string_of_nat.simps [simp del]

lemma string_of_nat_nonempty: "string_of_nat n \<noteq> []"
  by (subst string_of_nat.simps) simp

lemma js_rem_nonneg: "0 \<le> a \<Longrightarrow> js_rem (Num a) 12 = Num (a mod 12)"
  by (cases "a = 0") simp_all

lemma totalMonths_valid:
  "totalMonths (Date ts ys ms) (Date te ye me) = Num (max 0 ((ye - ys) * 12 + (me - ms)))"
  by (simp add: totalMonths_def Let_def max_def)

lemma totalMonths_invalid_end: "totalMonths start InvalidDate = NaN"
  by (cases start) (simp_all add: totalMonths_def)

lemma spec_duration_text_nonempty: "spec_duration_text t \<noteq> []"
  by (simp add: spec_duration_text_def spec_part_def)

lemma duration_text_of_total:
  assumes "0 \<le> t"
  shows "(let yearsPart = js_floor_div (Num t) 12; monthsPart = js_rem (Num t) 12
          in if js_eq yearsPart (Num 0) \<and> js_eq monthsPart (Num 0) then ''Less than 1 month''
             else join_space
               ((if js_gt yearsPart (Num 0)
                 then [js_toString yearsPart @ '' yr'' @ (if js_gt yearsPart (Num 1) then ''s'' else [])]
                 else []) @
                (if js_gt monthsPart (Num 0)
                 then [js_toString monthsPart @ '' mo'' @ (if js_gt monthsPart (Num 1) then ''s'' else [])]
                 else []))) = spec_duration_text t"
proof -
  define y where "y = t div 12"
  define m where "m = t mod 12"
  have y0: "0 \<le> y" and m0: "0 \<le> m"
    using assms by (simp_all add: y_def m_def)
  have z: "t = 0 \<longleftrightarrow> y = 0 \<and> m = 0"
    unfolding y_def m_def by presburger
  have code: "js_floor_div (Num t) 12 = Num y" "js_rem (Num t) 12 = Num m"
    using js_rem_nonneg [OF assms] by (simp_all add: y_def m_def)
  have spec: "spec_duration_text t =
      (if y = 0 \<and> m = 0 then ''Less than 1 month''
       else if m = 0 then spec_part y ''yr''
       else if y = 0 then spec_part m ''mo''
       else spec_part y ''yr'' @ '' '' @ spec_part m ''mo'')"
    unfolding spec_duration_text_def y_def [symmetric] m_def [symmetric] z ..
  show ?thesis
    unfolding Let_def code spec using y0 m0
    by (auto simp add: spec_part_def)
qed

section \<open>Claims about the duration\<close>

text \<open>
  C1, as amended. For every career item whose start date is valid and whose end (today
  when \<open>isCurrent\<close> is true, the item's end date otherwise) is a valid date,
  \<open>calculateDuration\<close> returns the duration text of
  \<open>max 0 ((end.year - start.year) * 12 + (end.month - start.month))\<close> whole months:
  \<open>Less than 1 month\<close> for 0, otherwise the years and months parts with their units,
  joined by a space, a zero part left out.
\<close>

theorem calculateDuration_valid_dates:
  assumes "new_Date parse sd = Date ts ys ms"
    and "(if cur = Some True then now
          else new_Date parse (case ed of None \<Rightarrow> [] | Some e \<Rightarrow> e)) = Date te ye me"
  shows "calculateDuration parse now sd ed cur =
           spec_duration_text (max 0 ((ye - ys) * 12 + (me - ms)))"
proof -
  let ?t = "max 0 ((ye - ys) * 12 + (me - ms))"
  have "0 \<le> ?t" by simp
  from duration_text_of_total [OF this] show ?thesis
    unfolding calculateDuration_def Let_def assms totalMonths_valid .
qed

theorem calculateDuration_valid_dates_witness:
  "new_Date parse0 ''2020-05-01'' = Date 1588291200000 2020 4 \<and>
   new_Date parse0 ''2023-06-15'' = Date 1686787200000 2023 5 \<and>
   calculateDuration parse0 today0 ''2020-05-01'' (Some ''2023-06-15'') (Some False) = ''3 yrs 1 mo''"
proof -
  have s: "new_Date parse0 ''2020-05-01'' = Date 1588291200000 2020 4"
    by (simp add: new_Date_def parse0_def)
  have e: "(if Some False = Some True then today0
            else new_Date parse0 (case Some ''2023-06-15'' of None \<Rightarrow> [] | Some e \<Rightarrow> e))
           = Date 1686787200000 2023 5"
    by (simp add: new_Date_def parse0_def)
  have "spec_duration_text (max 0 ((2023 - 2020) * 12 + (5 - 4))) = ''3 yrs 1 mo''"
    by (simp add: spec_duration_text_def spec_part_def string_of_int_def string_of_nat.simps
        digit_char_def)
  with calculateDuration_valid_dates [OF s e] s e show ?thesis
    by (simp add: new_Date_def parse0_def)
qed

text \<open>
  C1 as stated asks only for a valid start date. An item that is not current and has no
  end date (the form leaves the end date optional) has a valid start date, but
  \<open>new Date('')\<close> is an \<open>Invalid Date\<close>, every number computed from it is \<open>NaN\<close>,
  both parts are skipped and the function returns the empty string: neither
  \<open>Less than 1 month\<close> nor a text with a years or months part (by
  \<open>spec_duration_text_nonempty\<close> no duration text of the specification is empty).
\<close>

theorem calculateDuration_missing_end_counterexample:
  "new_Date parse0 ''2020-05-01'' = Date 1588291200000 2020 4 \<and>
   calculateDuration parse0 today0 ''2020-05-01'' None (Some False) = [] \<and>
   calculateDuration parse0 today0 ''2020-05-01'' None (Some False) \<noteq> ''Less than 1 month''"
  by (simp add: calculateDuration_def new_Date_def parse0_def totalMonths_def)

text \<open>
  C10. \<open>calculateDuration\<close> never reports a negative duration: for every pair of valid
  dates the computed total of months is a number that is not negative, and when the end
  month lies before the start month (the calendar month, year and month together) the
  total is clamped to 0 and the function returns \<open>Less than 1 month\<close>.
\<close>

theorem calculateDuration_never_negative:
  assumes "new_Date parse sd = Date ts ys ms"
    and "(if cur = Some True then now
          else new_Date parse (case ed of None \<Rightarrow> [] | Some e \<Rightarrow> e)) = Date te ye me"
  shows "(\<exists>t. totalMonths (Date ts ys ms) (Date te ye me) = Num t \<and> 0 \<le> t) \<and>
         (ye * 12 + me < ys * 12 + ms \<longrightarrow>
            totalMonths (Date ts ys ms) (Date te ye me) = Num 0 \<and>
            calculateDuration parse now sd ed cur = ''Less than 1 month'')"
proof -
  have n: "\<exists>t. totalMonths (Date ts ys ms) (Date te ye me) = Num t \<and> 0 \<le> t"
    by (simp add: totalMonths_valid)
  have c: "totalMonths (Date ts ys ms) (Date te ye me) = Num 0 \<and>
           calculateDuration parse now sd ed cur = ''Less than 1 month''"
    if "ye * 12 + me < ys * 12 + ms"
  proof -
    have t: "totalMonths (Date ts ys ms) (Date te ye me) = Num 0"
      using that by (simp add: totalMonths_valid max_def algebra_simps)
    show ?thesis
      using t assms by (simp add: calculateDuration_def Let_def)
  qed
  from n c show ?thesis by blast
qed

theorem calculateDuration_never_negative_witness:
  "new_Date parse0 ''2023-06-15'' = Date 1686787200000 2023 5 \<and>
   new_Date parse0 ''2020-05-01'' = Date 1588291200000 2020 4 \<and>
   (2020::int) * 12 + 4 < 2023 * 12 + 5 \<and>
   totalMonths (Date 1686787200000 2023 5) (Date 1588291200000 2020 4) = Num 0 \<and>
   calculateDuration parse0 today0 ''2023-06-15'' (Some ''2020-05-01'') None = ''Less than 1 month''"
proof -
  have s: "new_Date parse0 ''2023-06-15'' = Date 1686787200000 2023 5"
    by (simp add: new_Date_def parse0_def)
  have e: "(if None = Some True then today0
            else new_Date parse0 (case Some ''2020-05-01'' of None \<Rightarrow> [] | Some e \<Rightarrow> e))
           = Date 1588291200000 2020 4"
    by (simp add: new_Date_def parse0_def)
  have e': "new_Date parse0 ''2020-05-01'' = Date 1588291200000 2020 4"
    by (simp add: new_Date_def parse0_def)
  have l: "(2020::int) * 12 + 4 < 2023 * 12 + 5" by simp
  from calculateDuration_never_negative [OF s e, THEN conjunct2, THEN mp, OF l] s e' l
  show ?thesis by (simp only: simp_thms)
qed

section \<open>Claims about the messages filter\<close>

lemma str_includes_sublist: "str_includes s q \<longleftrightarrow> sublist q s"
  by (induction s) (simp_all add: sublist_Cons_right)

lemma all_dropWhile: "(\<forall>x\<in>set (dropWhile P s). P x) \<longleftrightarrow> (\<forall>x\<in>set s. P x)"
  by (induction s) auto

lemma trim_blank: "trim isWhiteSpace s \<noteq> [] \<longleftrightarrow> (\<exists>c\<in>set s. \<not> isWhiteSpace c)"
  using all_dropWhile [of isWhiteSpace s] by (simp add: trim_def)

text \<open>
  C2. For every list of messages, status filter and search query, whatever the host's
  lowercasing and white space are, \<open>filterMessages\<close> keeps exactly the messages whose
  status equals the selected filter (any status when the filter is \<open>all\<close>) and which,
  when the query is not blank (it has a code unit that is not white space), contain the
  lowercased query as a contiguous substring of the lowercased name, email or message
  body; the kept messages stay in their order (the result is the input list filtered,
  hence a subsequence of it).
\<close>

theorem filterMessages_exact:
  "filteredMessages (filterMessages isWhiteSpace toLowerCase st) =
     filter (\<lambda>msg.
        (filterStatus st = ''all'' \<or> status_string (m_status msg) = filterStatus st) \<and>
        ((\<exists>c\<in>set (searchQuery st). \<not> isWhiteSpace c) \<longrightarrow>
           sublist (toLowerCase (searchQuery st)) (toLowerCase (m_name msg)) \<or>
           sublist (toLowerCase (searchQuery st)) (toLowerCase (m_email msg)) \<or>
           sublist (toLowerCase (searchQuery st)) (toLowerCase (m_message msg))))
       (messages st) \<and>
   subseq (filteredMessages (filterMessages isWhiteSpace toLowerCase st)) (messages st)"
proof -
  have eq: "filteredMessages (filterMessages isWhiteSpace toLowerCase st) =
     filter (\<lambda>msg.
        (filterStatus st = ''all'' \<or> status_string (m_status msg) = filterStatus st) \<and>
        ((\<exists>c\<in>set (searchQuery st). \<not> isWhiteSpace c) \<longrightarrow>
           sublist (toLowerCase (searchQuery st)) (toLowerCase (m_name msg)) \<or>
           sublist (toLowerCase (searchQuery st)) (toLowerCase (m_email msg)) \<or>
           sublist (toLowerCase (searchQuery st)) (toLowerCase (m_message msg))))
       (messages st)"
    by (simp add: filterMessages_def Let_def trim_blank str_includes_sublist)
  show ?thesis
    unfolding eq by simp
qed

theorem filterMessages_exact_witness:
  "(\<exists>c\<in>set (searchQuery inbox0). \<not> asciiWhiteSpace c) \<and>
   filter (\<lambda>msg.
        (filterStatus inbox0 = ''all'' \<or> status_string (m_status msg) = filterStatus inbox0) \<and>
        ((\<exists>c\<in>set (searchQuery inbox0). \<not> asciiWhiteSpace c) \<longrightarrow>
           sublist (asciiToLowerCase (searchQuery inbox0)) (asciiToLowerCase (m_name msg)) \<or>
           sublist (asciiToLowerCase (searchQuery inbox0)) (asciiToLowerCase (m_email msg)) \<or>
           sublist (asciiToLowerCase (searchQuery inbox0)) (asciiToLowerCase (m_message msg))))
       (messages inbox0) =
     [msg0 ''Ann'' ''ann@x.org'' ''Hello'' New, msg0 ''Cy'' ''cy@x.org'' ''hi from ANN'' New]"
proof -
  have b: "\<exists>c\<in>set (searchQuery inbox0). \<not> asciiWhiteSpace c"
    by code_simp
  have r: "filteredMessages (filterMessages asciiWhiteSpace asciiToLowerCase inbox0) =
         [msg0 ''Ann'' ''ann@x.org'' ''Hello'' New, msg0 ''Cy'' ''cy@x.org'' ''hi from ANN'' New]"
    by code_simp
  from filterMessages_exact [of asciiWhiteSpace asciiToLowerCase inbox0]
  have "filteredMessages (filterMessages asciiWhiteSpace asciiToLowerCase inbox0) =
     filter (\<lambda>msg.
        (filterStatus inbox0 = ''all'' \<or> status_string (m_status msg) = filterStatus inbox0) \<and>
        ((\<exists>c\<in>set (searchQuery inbox0). \<not> asciiWhiteSpace c) \<longrightarrow>
           sublist (asciiToLowerCase (searchQuery inbox0)) (asciiToLowerCase (m_name msg)) \<or>
           sublist (asciiToLowerCase (searchQuery inbox0)) (asciiToLowerCase (m_email msg)) \<or>
           sublist (asciiToLowerCase (searchQuery inbox0)) (asciiToLowerCase (m_message msg))))
       (messages inbox0)" ..
  with r b show ?thesis by (simp only: simp_thms)
qed

section \<open>Claims about the admin settings page\<close>

text \<open>
  C3. For every non-empty new password the strength indicator is shown, and its label is
  \<open>Strong password\<close> exactly when the length is at least 8, \<open>Medium strength\<close> exactly
  when the length is 6 or 7, and \<open>Weak password\<close> exactly when the length is below 6;
  the bar width is \<open>min ((length / 12) * 100) 100\<close> percent.
\<close>

theorem passwordStrength_labels:
  assumes "pw \<noteq> []"
  shows "\<exists>ind. passwordStrength pw = Some ind \<and>
           (strengthLabel ind = ''Strong password'' \<longleftrightarrow> 8 \<le> length pw) \<and>
           (strengthLabel ind = ''Medium strength'' \<longleftrightarrow>
              length pw = 6 \<or> length pw = 7) \<and>
           (strengthLabel ind = ''Weak password'' \<longleftrightarrow> length pw < 6) \<and>
           barWidth ind = min ((of_nat (length pw) / 12) * 100) 100"
  using assms by (auto simp add: passwordStrength_def)

theorem passwordStrength_labels_witness:
  "''abcdefg'' \<noteq> [] \<and>
   (\<exists>ind. passwordStrength ''abcdefg'' = Some ind \<and> strengthLabel ind = ''Medium strength'' \<and>
      barWidth ind = 175 / 3)"
proof -
  have n: "''abcdefg'' \<noteq> []" by simp
  from passwordStrength_labels [OF n] show ?thesis by auto
qed

text \<open>
  C5. Submitting the settings form issues the \<open>PUT\<close> request to \<open>/api/admin/settings\<close>
  if and only if the new password is empty, or equals the confirmation and has at least 6
  characters. Otherwise no request is issued, the form data is unchanged and the
  notification is one of the two validation errors.
\<close>

theorem handleSubmit_validation:
  "((\<exists>b. Request PUT ''/api/admin/settings'' b \<in> set (fst (handleSubmit se res upd st))) \<longleftrightarrow>
      newPassword (formData st) = [] \<or>
      (newPassword (formData st) = confirmPassword (formData st) \<and>
       6 \<le> length (newPassword (formData st)))) \<and>
   (\<not> (newPassword (formData st) = [] \<or>
        (newPassword (formData st) = confirmPassword (formData st) \<and>
         6 \<le> length (newPassword (formData st)))) \<longrightarrow>
      fst (handleSubmit se res upd st) = [] \<and>
      formData (snd (handleSubmit se res upd st)) = formData st \<and>
      (notification (snd (handleSubmit se res upd st)) =
         Some (NError, ''New passwords do not match'') \<or>
       notification (snd (handleSubmit se res upd st)) =
         Some (NError, ''New password must be at least 6 characters long'')))"
  by (auto simp add: handleSubmit_def Let_def split: settings_reply.splits option.splits)

theorem handleSubmit_validation_witness:
  "\<not> (newPassword (formData (settings0 ''secr'' ''secr'')) = [] \<or>
      (newPassword (formData (settings0 ''secr'' ''secr'')) =
         confirmPassword (formData (settings0 ''secr'' ''secr'')) \<and>
       6 \<le> length (newPassword (formData (settings0 ''secr'' ''secr''))))) \<and>
   fst (handleSubmit (Some ''a@x.org'') (Resp True None) None (settings0 ''secr'' ''secr'')) = [] \<and>
   formData (snd (handleSubmit (Some ''a@x.org'') (Resp True None) None (settings0 ''secr'' ''secr'')))
     = formData (settings0 ''secr'' ''secr'') \<and>
   (\<exists>b. Request PUT ''/api/admin/settings'' b \<in>
      set (fst (handleSubmit (Some ''a@x.org'') (Resp True None) None
                 (settings0 ''secret1'' ''secret1''))))"
proof -
  have bad: "\<not> (newPassword (formData (settings0 ''secr'' ''secr'')) = [] \<or>
      (newPassword (formData (settings0 ''secr'' ''secr'')) =
         confirmPassword (formData (settings0 ''secr'' ''secr'')) \<and>
       6 \<le> length (newPassword (formData (settings0 ''secr'' ''secr'')))))"
    by (simp add: settings0_def)
  have good: "newPassword (formData (settings0 ''secret1'' ''secret1'')) = [] \<or>
      (newPassword (formData (settings0 ''secret1'' ''secret1'')) =
         confirmPassword (formData (settings0 ''secret1'' ''secret1'')) \<and>
       6 \<le> length (newPassword (formData (settings0 ''secret1'' ''secret1''))))"
    by (simp add: settings0_def)
  from handleSubmit_validation
         [of "Some ''a@x.org''" "Resp True None" None "settings0 ''secr'' ''secr''"]
       handleSubmit_validation
         [of "Some ''a@x.org''" "Resp True None" None "settings0 ''secret1'' ''secret1''"]
       bad good
  show ?thesis by blast
qed

section \<open>Claims about the career page\<close>

lemma mset_js_insort: "mset (js_insort cmp x ys) = add_mset x (mset ys)"
  by (induction ys) simp_all

lemma mset_js_sort: "mset (js_sort cmp xs) = mset xs"
  by (induction xs) (simp_all add: js_sort_def mset_js_insort)

lemma set_js_insort: "set (js_insort cmp x ys) = insert x (set ys)"
  using mset_js_insort [of cmp x ys] by (metis set_mset_add_mset_insert set_mset_mset)

lemma startTime_valid:
  "new_Date parse (startDate a) \<noteq> InvalidDate \<Longrightarrow> \<exists>t. startTime parse a = Num t"
  by (cases "new_Date parse (startDate a)") (simp_all add: startTime_def)

lemma js_insort_sorted:
  assumes "\<forall>a\<in>set (x # ys). new_Date parse (startDate a) \<noteq> InvalidDate"
    and "sorted_wrt (\<lambda>a b. js_ge (startTime parse a) (startTime parse b)) ys"
  shows "sorted_wrt (\<lambda>a b. js_ge (startTime parse a) (startTime parse b))
           (js_insort (byStartDateDesc parse) x ys)"
  using assms
proof (induction ys)
  case Nil
  then show ?case by simp
next
  case (Cons y ys)
  obtain tx where tx: "startTime parse x = Num tx"
    using Cons.prems(1) startTime_valid by force
  obtain ty where ty: "startTime parse y = Num ty"
    using Cons.prems(1) startTime_valid by force
  have cmp: "byStartDateDesc parse x y = Num (ty - tx)"
    using tx ty by (simp add: byStartDateDesc_def startTime_def)
  show ?case
  proof (cases "ty > tx")
    case True
    have ih: "sorted_wrt (\<lambda>a b. js_ge (startTime parse a) (startTime parse b))
                (js_insort (byStartDateDesc parse) x ys)"
      using Cons by simp
    have "\<forall>z\<in>set (js_insort (byStartDateDesc parse) x ys).
            js_ge (startTime parse y) (startTime parse z)"
      using Cons.prems(2) True tx ty by (auto simp add: set_js_insort)
    with ih True cmp show ?thesis by simp
  next
    case False
    have xy: "js_ge (startTime parse x) (startTime parse y)"
      using False tx ty by simp
    have "\<forall>z\<in>set ys. js_ge (startTime parse x) (startTime parse z)"
    proof
      fix z assume z: "z \<in> set ys"
      then obtain tz where tz: "startTime parse z = Num tz"
        using Cons.prems(1) startTime_valid by force
      from z Cons.prems(2) have "js_ge (startTime parse y) (startTime parse z)" by simp
      with tz ty tx False show "js_ge (startTime parse x) (startTime parse z)" by simp
    qed
    with xy False cmp Cons.prems(2) show ?thesis by simp
  qed
qed

lemma js_sort_sorted:
  assumes "\<forall>a\<in>set xs. new_Date parse (startDate a) \<noteq> InvalidDate"
  shows "sorted_wrt (\<lambda>a b. js_ge (startTime parse a) (startTime parse b))
           (js_sort (byStartDateDesc parse) xs)"
  using assms
proof (induction xs)
  case Nil
  then show ?case by (simp add: js_sort_def)
next
  case (Cons x xs)
  have s: "set (js_sort (byStartDateDesc parse) xs) = set xs"
    using mset_js_sort [of "byStartDateDesc parse" xs] by (metis set_mset_mset)
  have "sorted_wrt (\<lambda>a b. js_ge (startTime parse a) (startTime parse b))
          (js_insort (byStartDateDesc parse) x (js_sort (byStartDateDesc parse) xs))"
    by (rule js_insort_sorted) (use Cons s in auto)
  then show ?case by (simp add: js_sort_def)
qed

text \<open>
  C6, as amended. When every fetched career item has a start date that parses to a valid
  date, \<open>fetchCareer\<close> displays a permutation of the fetched list in which the time
  values of the start dates descend: the newest start date comes first.
\<close>

theorem fetchCareer_sorted:
  assumes "\<forall>a\<in>set data. new_Date parse (startDate a) \<noteq> InvalidDate"
  shows "mset (career (snd (fetchCareer parse (GetOk data) st))) = mset data \<and>
         sorted_wrt (\<lambda>a b. js_ge (startTime parse a) (startTime parse b))
           (career (snd (fetchCareer parse (GetOk data) st)))"
  using js_sort_sorted [OF assms] by (simp add: fetchCareer_def mset_js_sort)

theorem fetchCareer_sorted_witness:
  "new_Date parse0 ''2020-05-01'' \<noteq> InvalidDate \<and> new_Date parse0 ''2023-06-15'' \<noteq> InvalidDate \<and>
   career (snd (fetchCareer parse0
     (GetOk [job0 ''A'' ''2020-05-01'', job0 ''C'' ''2023-06-15'', job0 ''D'' ''2020-05-01''])
     career0)) = [job0 ''C'' ''2023-06-15'', job0 ''A'' ''2020-05-01'', job0 ''D'' ''2020-05-01''] \<and>
   sorted_wrt (\<lambda>a b. js_ge (startTime parse0 a) (startTime parse0 b))
     [job0 ''C'' ''2023-06-15'', job0 ''A'' ''2020-05-01'', job0 ''D'' ''2020-05-01'']"
proof -
  have v: "new_Date parse0 ''2020-05-01'' \<noteq> InvalidDate"
    "new_Date parse0 ''2023-06-15'' \<noteq> InvalidDate"
    by (simp_all add: new_Date_def parse0_def)
  then have h: "\<forall>a\<in>set [job0 ''A'' ''2020-05-01'', job0 ''C'' ''2023-06-15'',
                          job0 ''D'' ''2020-05-01'']. new_Date parse0 (startDate a) \<noteq> InvalidDate"
    by (simp add: job0_def)
  have r: "career (snd (fetchCareer parse0
     (GetOk [job0 ''A'' ''2020-05-01'', job0 ''C'' ''2023-06-15'', job0 ''D'' ''2020-05-01''])
     career0)) = [job0 ''C'' ''2023-06-15'', job0 ''A'' ''2020-05-01'', job0 ''D'' ''2020-05-01'']"
    by code_simp
  from fetchCareer_sorted [OF h, of career0] v r show ?thesis
    by (simp only: simp_thms)
qed

text \<open>
  C6 as stated puts no condition on the start dates. An item whose start date does not
  parse has the time value \<open>NaN\<close>; every comparison with it yields \<open>NaN\<close>, which the
  sort takes as 0, so the item stays where it is and the items around it are never
  compared with each other: an older item stays in front of a newer one.
\<close>

theorem fetchCareer_invalid_date_counterexample:
  "career (snd (fetchCareer parse0
     (GetOk [job0 ''A'' ''2020-05-01'', job0 ''B'' ''soon'', job0 ''C'' ''2023-06-15''])
     career0)) = [job0 ''A'' ''2020-05-01'', job0 ''B'' ''soon'', job0 ''C'' ''2023-06-15''] \<and>
   js_lt (startTime parse0 (job0 ''A'' ''2020-05-01'')) (startTime parse0 (job0 ''C'' ''2023-06-15''))"
  by code_simp

text \<open>
  C9. For every career form submission with \<open>isCurrent\<close> checked, the request that
  \<open>onSubmit\<close> issues first is the \<open>POST\<close> to \<open>/api/career\<close> or the \<open>PUT\<close> to
  \<open>/api/career/<id>\<close> with the serialised \<open>submitData\<close> as its body, and every JSON
  body in the trace has no \<open>endDate\<close> property while \<open>isCurrent\<close> is true in it.
\<close>

theorem onSubmit_career_current_no_endDate:
  assumes "isCurrent data"
  shows "(\<exists>m u. hd (fst (onSubmit_career parse data res rf st)) =
                    Request m u (JsonBody (submitData data)) \<and>
                 (m = POST \<and> u = ''/api/career'' \<or> m = PUT \<and> prefix ''/api/career/'' u)) \<and>
         (\<forall>m u b. Request m u (JsonBody b) \<in> set (fst (onSubmit_career parse data res rf st))
            \<longrightarrow> map_of b ''endDate'' = None \<and> map_of b ''isCurrent'' = Some (JBool True))"
proof -
  have e: "map_of (submitData data) ''endDate'' = None"
    using assms by (simp add: submitData_def)
  have c: "map_of (submitData data) ''isCurrent'' = Some (JBool True)"
    using assms by (simp add: submitData_def)
  have first: "\<exists>m u. hd (fst (onSubmit_career parse data res rf st)) =
                    Request m u (JsonBody (submitData data)) \<and>
                 (m = POST \<and> u = ''/api/career'' \<or> m = PUT \<and> prefix ''/api/career/'' u)"
    by (simp add: onSubmit_career_def fetchCareer_def Let_def
        split: reply.splits get_reply.splits option.splits)
  have all: "\<And>m u b. Request m u (JsonBody b) \<in> set (fst (onSubmit_career parse data res rf st))
            \<Longrightarrow> b = submitData data"
    by (auto simp add: onSubmit_career_def fetchCareer_def Let_def
        split: reply.splits get_reply.splits option.splits if_splits)
  from first all e c show ?thesis by blast
qed

theorem onSubmit_career_current_no_endDate_witness:
  "isCurrent (careerForm0 True) \<and>
   hd (fst (onSubmit_career parse0 (careerForm0 True) Ok (GetOk []) career0)) =
     Request POST ''/api/career''
       (JsonBody [(''workplace'', JString ''Roastery''), (''position'', JString ''Barista''),
                  (''startDate'', JString ''2020-05-01''), (''isCurrent'', JBool True)]) \<and>
   map_of [(''workplace'', JString ''Roastery''), (''position'', JString ''Barista''),
           (''startDate'', JString ''2020-05-01''), (''isCurrent'', JBool True)] ''endDate'' = None"
proof -
  have c: "isCurrent (careerForm0 True)"
    by (simp add: careerForm0_def)
  have r: "hd (fst (onSubmit_career parse0 (careerForm0 True) Ok (GetOk []) career0)) =
     Request POST ''/api/career''
       (JsonBody [(''workplace'', JString ''Roastery''), (''position'', JString ''Barista''),
                  (''startDate'', JString ''2020-05-01''), (''isCurrent'', JBool True)])"
    by code_simp
  have m: "Request POST ''/api/career''
       (JsonBody [(''workplace'', JString ''Roastery''), (''position'', JString ''Barista''),
                  (''startDate'', JString ''2020-05-01''), (''isCurrent'', JBool True)])
     \<in> set (fst (onSubmit_career parse0 (careerForm0 True) Ok (GetOk []) career0))"
    by code_simp
  from onSubmit_career_current_no_endDate [OF c, of parse0 Ok "GetOk []" career0] m
  have "map_of [(''workplace'', JString ''Roastery''), (''position'', JString ''Barista''),
           (''startDate'', JString ''2020-05-01''), (''isCurrent'', JBool True)] ''endDate'' = None"
    by blast
  with c r show ?thesis by (simp only: simp_thms)
qed

section \<open>Claims about the requests of the manager pages\<close>

lemma deleteImage_guarded:
  "delete_after_confirm (''/api/gallery/'' @ ident) c st (deleteImage ident c res rf st)"
  by (simp add: delete_after_confirm_def deleteImage_def fetchGallery_def
      split: reply.splits get_reply.splits)

lemma deleteCertificate_guarded:
  "delete_after_confirm (''/api/certificates/'' @ ident) c st (deleteCertificate ident c res rf st)"
  by (simp add: delete_after_confirm_def deleteCertificate_def fetchCertificates_def
      split: reply.splits get_reply.splits)

lemma deleteCourse_guarded:
  "delete_after_confirm (''/api/courses/'' @ ident) c st (deleteCourse ident c res rf st)"
  by (simp add: delete_after_confirm_def deleteCourse_def fetchCourses_def
      split: reply.splits get_reply.splits)

lemma deleteCareerItem_guarded:
  "delete_after_confirm (''/api/career/'' @ ident) c st (deleteCareerItem parse ident c res rf st)"
  by (simp add: delete_after_confirm_def deleteCareerItem_def fetchCareer_def
      split: reply.splits get_reply.splits)

lemma deleteVideo_guarded:
  "delete_after_confirm (''/api/videos/'' @ ident) c st (deleteVideo ident c res rf st)"
  by (simp add: delete_after_confirm_def deleteVideo_def fetchVideos_def
      split: reply.splits get_reply.splits)

lemma deleteSkill_guarded:
  "delete_after_confirm (''/api/skills/'' @ ident) c st (deleteSkill ident c res rf st)"
  by (simp add: delete_after_confirm_def deleteSkill_def fetchSkills_def
      split: reply.splits get_reply.splits)

text \<open>
  C4. On each of the six manager pages (gallery, certificates, courses, career, videos,
  skills) the delete handler shows the confirmation dialog first; the \<open>DELETE\<close> request
  to \<open>/api/<resource>/<id>\<close> is issued only when the user has confirmed, and when the
  dialog is cancelled no request is sent and the page state, the displayed list
  included, is unchanged.
\<close>

theorem delete_only_after_confirm:
  "delete_after_confirm (''/api/gallery/'' @ ident) c stG (deleteImage ident c res rfG stG) \<and>
   delete_after_confirm (''/api/certificates/'' @ ident) c stC
     (deleteCertificate ident c res rfC stC) \<and>
   delete_after_confirm (''/api/courses/'' @ ident) c stK (deleteCourse ident c res rfK stK) \<and>
   delete_after_confirm (''/api/career/'' @ ident) c stJ
     (deleteCareerItem parse ident c res rfJ stJ) \<and>
   delete_after_confirm (''/api/videos/'' @ ident) c stV (deleteVideo ident c res rfV stV) \<and>
   delete_after_confirm (''/api/skills/'' @ ident) c stS (deleteSkill ident c res rfS stS)"
  by (intro conjI deleteImage_guarded deleteCertificate_guarded deleteCourse_guarded
      deleteCareerItem_guarded deleteVideo_guarded deleteSkill_guarded)

theorem delete_only_after_confirm_witness:
  "requests (fst (deleteSkill ''s1'' False Ok (GetOk []) skills0)) = [] \<and>
   snd (deleteSkill ''s1'' False Ok (GetOk []) skills0) = skills0 \<and>
   takeWhile (\<lambda>e. \<not> is_request e) (fst (deleteCareerItem parse0 ''c1'' True Ok (GetOk []) career0))
     = [Confirm ''Are you sure?''] \<and>
   hd (requests (fst (deleteCareerItem parse0 ''c1'' True Ok (GetOk []) career0))) =
     (DELETE, ''/api/career/c1'')"
proof -
  have a: "delete_after_confirm (''/api/skills/'' @ ''s1'') False skills0
             (deleteSkill ''s1'' False Ok (GetOk []) skills0)"
    using delete_only_after_confirm [where ident = "''s1''" and c = False and res = Ok
        and stS = skills0 and rfS = "GetOk []"]
    by blast
  have b: "delete_after_confirm (''/api/career/'' @ ''c1'') True career0
             (deleteCareerItem parse0 ''c1'' True Ok (GetOk []) career0)"
    using delete_only_after_confirm [where ident = "''c1''" and c = True and res = Ok
        and stJ = career0 and rfJ = "GetOk []" and parse = parse0]
    by blast
  from a b show ?thesis
    by (simp add: delete_after_confirm_def)
qed
















lemma gallery_crud:
  "requests (fst (fetchGallery rf st)) = [(GET, ''/api/gallery'')] \<and>
   (g_editingItem st = None \<longrightarrow>
      hd (requests (fst (onSubmit_gallery d res rf st))) = (POST, ''/api/gallery'')) \<and>
   (g_editingItem st = Some e \<longrightarrow>
      hd (requests (fst (onSubmit_gallery d res rf st))) =
        (PUT, ''/api/gallery/'' @ id_string (g_id e))) \<and>
   hd (requests (fst (deleteImage i True res rf st))) = (DELETE, ''/api/gallery/'' @ i)"
  by (simp add: onSubmit_gallery_def deleteImage_def fetchGallery_def Let_def
      split: reply.splits get_reply.splits option.splits)

lemma certificates_crud:
  "requests (fst (fetchCertificates rf st)) = [(GET, ''/api/certificates'')] \<and>
   (\<not> isEditMode st \<longrightarrow>
      hd (requests (fst (onSubmit_certificates d res rf st))) = (POST, ''/api/certificates'')) \<and>
   (isEditMode st \<and> editingCertificate st = Some e \<longrightarrow>
      hd (requests (fst (onSubmit_certificates d res rf st))) =
        (PUT, ''/api/certificates/'' @ id_string (cert_id e))) \<and>
   hd (requests (fst (deleteCertificate i True res rf st))) = (DELETE, ''/api/certificates/'' @ i)"
  by (simp add: onSubmit_certificates_def deleteCertificate_def fetchCertificates_def Let_def
      split: reply.splits get_reply.splits option.splits)

lemma courses_crud:
  "requests (fst (fetchCourses rf st)) = [(GET, ''/api/courses'')] \<and>
   (editingCourse st = None \<longrightarrow>
      hd (requests (fst (onSubmit_courses d res rf st))) = (POST, ''/api/courses'')) \<and>
   (editingCourse st = Some e \<and> truthy (course_id e) \<longrightarrow>
      hd (requests (fst (onSubmit_courses d res rf st))) =
        (PUT, ''/api/courses/'' @ id_string (course_id e))) \<and>
   hd (requests (fst (deleteCourse i True res rf st))) = (DELETE, ''/api/courses/'' @ i)"
  by (simp add: onSubmit_courses_def deleteCourse_def fetchCourses_def Let_def
      split: reply.splits get_reply.splits option.splits)

lemma career_crud:
  "requests (fst (fetchCareer parse rf st)) = [(GET, ''/api/career'')] \<and>
   (career_editingItem st = None \<longrightarrow>
      hd (requests (fst (onSubmit_career parse d res rf st))) = (POST, ''/api/career'')) \<and>
   (career_editingItem st = Some e \<and> truthy (career_id e) \<longrightarrow>
      hd (requests (fst (onSubmit_career parse d res rf st))) =
        (PUT, ''/api/career/'' @ id_string (career_id e))) \<and>
   hd (requests (fst (deleteCareerItem parse i True res rf st))) = (DELETE, ''/api/career/'' @ i)"
  by (simp add: onSubmit_career_def deleteCareerItem_def fetchCareer_def Let_def
      split: reply.splits get_reply.splits option.splits)

lemma videos_crud:
  "requests (fst (fetchVideos rf st)) = [(GET, ''/api/videos'')] \<and>
   (editingVideo st = None \<longrightarrow>
      hd (requests (fst (onSubmit_videos d res rf st))) = (POST, ''/api/videos'')) \<and>
   (editingVideo st = Some e \<and> truthy (video_id e) \<longrightarrow>
      hd (requests (fst (onSubmit_videos d res rf st))) =
        (PUT, ''/api/videos/'' @ id_string (video_id e))) \<and>
   hd (requests (fst (deleteVideo i True res rf st))) = (DELETE, ''/api/videos/'' @ i)"
  by (simp add: onSubmit_videos_def deleteVideo_def fetchVideos_def Let_def
      split: reply.splits get_reply.splits option.splits)

lemma skills_crud:
  "requests (fst (fetchSkills rf st)) = [(GET, ''/api/skills'')] \<and>
   (editingSkill st = None \<longrightarrow>
      hd (requests (fst (onSubmit_skills d res rf st))) = (POST, ''/api/skills'')) \<and>
   (editingSkill st = Some e \<and> truthy (skill_id e) \<longrightarrow>
      hd (requests (fst (onSubmit_skills d res rf st))) =
        (PUT, ''/api/skills/'' @ id_string (skill_id e))) \<and>
   hd (requests (fst (deleteSkill i True res rf st))) = (DELETE, ''/api/skills/'' @ i)"
  by (simp add: onSubmit_skills_def deleteSkill_def fetchSkills_def Let_def
      split: reply.splits get_reply.splits option.splits)

text \<open>
  C8, as amended. Each of the six manager pages calls the REST-style endpoints of its
  resource: \<open>GET /api/<resource>\<close> to read the list, \<open>POST /api/<resource>\<close> to create
  when no item is being edited, \<open>PUT /api/<resource>/<id>\<close> to update the item being
  edited, and \<open>DELETE /api/<resource>/<id>\<close> to delete once the user has confirmed. The
  footer issues no request.
\<close>

theorem manager_pages_crud:
  "(requests (fst (fetchGallery rfG stG)) = [(GET, ''/api/gallery'')] \<and>
    (g_editingItem stG = None \<longrightarrow>
       hd (requests (fst (onSubmit_gallery dG res rfG stG))) = (POST, ''/api/gallery'')) \<and>
    (g_editingItem stG = Some eG \<longrightarrow>
       hd (requests (fst (onSubmit_gallery dG res rfG stG))) =
         (PUT, ''/api/gallery/'' @ id_string (g_id eG))) \<and>
    hd (requests (fst (deleteImage ident True res rfG stG))) = (DELETE, ''/api/gallery/'' @ ident)) \<and>
   (requests (fst (fetchCertificates rfC stC)) = [(GET, ''/api/certificates'')] \<and>
    (\<not> isEditMode stC \<longrightarrow>
       hd (requests (fst (onSubmit_certificates dC res rfC stC))) = (POST, ''/api/certificates'')) \<and>
    (isEditMode stC \<and> editingCertificate stC = Some eC \<longrightarrow>
       hd (requests (fst (onSubmit_certificates dC res rfC stC))) =
         (PUT, ''/api/certificates/'' @ id_string (cert_id eC))) \<and>
    hd (requests (fst (deleteCertificate ident True res rfC stC))) =
      (DELETE, ''/api/certificates/'' @ ident)) \<and>
   (requests (fst (fetchCourses rfK stK)) = [(GET, ''/api/courses'')] \<and>
    (editingCourse stK = None \<longrightarrow>
       hd (requests (fst (onSubmit_courses dK res rfK stK))) = (POST, ''/api/courses'')) \<and>
    (editingCourse stK = Some eK \<and> truthy (course_id eK) \<longrightarrow>
       hd (requests (fst (onSubmit_courses dK res rfK stK))) =
         (PUT, ''/api/courses/'' @ id_string (course_id eK))) \<and>
    hd (requests (fst (deleteCourse ident True res rfK stK))) = (DELETE, ''/api/courses/'' @ ident)) \<and>
   (requests (fst (fetchCareer parse rfJ stJ)) = [(GET, ''/api/career'')] \<and>
    (career_editingItem stJ = None \<longrightarrow>
       hd (requests (fst (onSubmit_career parse dJ res rfJ stJ))) = (POST, ''/api/career'')) \<and>
    (career_editingItem stJ = Some eJ \<and> truthy (career_id eJ) \<longrightarrow>
       hd (requests (fst (onSubmit_career parse dJ res rfJ stJ))) =
         (PUT, ''/api/career/'' @ id_string (career_id eJ))) \<and>
    hd (requests (fst (deleteCareerItem parse ident True res rfJ stJ))) =
      (DELETE, ''/api/career/'' @ ident)) \<and>
   (requests (fst (fetchVideos rfV stV)) = [(GET, ''/api/videos'')] \<and>
    (editingVideo stV = None \<longrightarrow>
       hd (requests (fst (onSubmit_videos dV res rfV stV))) = (POST, ''/api/videos'')) \<and>
    (editingVideo stV = Some eV \<and> truthy (video_id eV) \<longrightarrow>
       hd (requests (fst (onSubmit_videos dV res rfV stV))) =
         (PUT, ''/api/videos/'' @ id_string (video_id eV))) \<and>
    hd (requests (fst (deleteVideo ident True res rfV stV))) = (DELETE, ''/api/videos/'' @ ident)) \<and>
   (requests (fst (fetchSkills rfS stS)) = [(GET, ''/api/skills'')] \<and>
    (editingSkill stS = None \<longrightarrow>
       hd (requests (fst (onSubmit_skills dS res rfS stS))) = (POST, ''/api/skills'')) \<and>
    (editingSkill stS = Some eS \<and> truthy (skill_id eS) \<longrightarrow>
       hd (requests (fst (onSubmit_skills dS res rfS stS))) =
         (PUT, ''/api/skills/'' @ id_string (skill_id eS))) \<and>
    hd (requests (fst (deleteSkill ident True res rfS stS))) = (DELETE, ''/api/skills/'' @ ident)) \<and>
   requests (fst (Footer now toLocaleDateString)) = []"
proof -
  have f: "requests (fst (Footer now toLocaleDateString)) = []"
    by (simp add: Footer_def)
  show ?thesis
    using gallery_crud [of rfG stG dG res eG ident]
      certificates_crud [of rfC stC dC res eC ident]
      courses_crud [of rfK stK dK res eK ident]
      career_crud [of parse rfJ stJ dJ res eJ ident]
      videos_crud [of rfV stV dV res eV ident]
      skills_crud [of rfS stS dS res eS ident] f
    by - ((rule conjI, assumption)+, assumption)
qed

theorem manager_pages_crud_witness:
  "g_editingItem gallery0 = None \<and>
   hd (requests (fst (onSubmit_gallery galleryForm0 Ok (GetOk []) gallery0))) = (POST, ''/api/gallery'') \<and>
   g_editingItem (gallery0\<lparr>g_editingItem := Some galleryItem0\<rparr>) = Some galleryItem0 \<and>
   hd (requests (fst (onSubmit_gallery galleryForm0 Ok (GetOk []) (gallery0\<lparr>g_editingItem := Some galleryItem0\<rparr>)))) =
     (PUT, ''/api/gallery/'' @ id_string (g_id galleryItem0)) \<and>
   \<not> isEditMode certificates0 \<and>
   hd (requests (fst (onSubmit_certificates certificateForm0 Ok (GetOk []) certificates0))) = (POST, ''/api/certificates'') \<and>
   isEditMode (certificates0\<lparr>editingCertificate := Some certificate0, isEditMode := True\<rparr>) \<and> editingCertificate (certificates0\<lparr>editingCertificate := Some certificate0, isEditMode := True\<rparr>) = Some certificate0 \<and>
   hd (requests (fst (onSubmit_certificates certificateForm0 Ok (GetOk []) (certificates0\<lparr>editingCertificate := Some certificate0, isEditMode := True\<rparr>)))) =
     (PUT, ''/api/certificates/'' @ id_string (cert_id certificate0)) \<and>
   editingCourse courses0 = None \<and>
   hd (requests (fst (onSubmit_courses courseForm0 Ok (GetOk []) courses0))) = (POST, ''/api/courses'') \<and>
   editingCourse (courses0\<lparr>editingCourse := Some course0\<rparr>) = Some course0 \<and> truthy (course_id course0) \<and>
   hd (requests (fst (onSubmit_courses courseForm0 Ok (GetOk []) (courses0\<lparr>editingCourse := Some course0\<rparr>)))) =
     (PUT, ''/api/courses/'' @ id_string (course_id course0)) \<and>
   career_editingItem career0 = None \<and>
   hd (requests (fst (onSubmit_career parse0 (careerForm0 False) Ok (GetOk []) career0))) = (POST, ''/api/career'') \<and>
   career_editingItem (career0\<lparr>career_editingItem := Some (job0 ''A'' ''2020-05-01'')\<rparr>) = Some (job0 ''A'' ''2020-05-01'') \<and> truthy (career_id (job0 ''A'' ''2020-05-01'')) \<and>
   hd (requests (fst (onSubmit_career parse0 (careerForm0 False) Ok (GetOk []) (career0\<lparr>career_editingItem := Some (job0 ''A'' ''2020-05-01'')\<rparr>)))) =
     (PUT, ''/api/career/'' @ id_string (career_id (job0 ''A'' ''2020-05-01''))) \<and>
   editingVideo videos0 = None \<and>
   hd (requests (fst (onSubmit_videos videoForm0 Ok (GetOk []) videos0))) = (POST, ''/api/videos'') \<and>
   editingVideo (videos0\<lparr>editingVideo := Some video0\<rparr>) = Some video0 \<and> truthy (video_id video0) \<and>
   hd (requests (fst (onSubmit_videos videoForm0 Ok (GetOk []) (videos0\<lparr>editingVideo := Some video0\<rparr>)))) =
     (PUT, ''/api/videos/'' @ id_string (video_id video0)) \<and>
   editingSkill skills0 = None \<and>
   hd (requests (fst (onSubmit_skills skillForm0 Ok (GetOk []) skills0))) = (POST, ''/api/skills'') \<and>
   editingSkill (skills0\<lparr>editingSkill := Some skill0\<rparr>) = Some skill0 \<and> truthy (skill_id skill0) \<and>
   hd (requests (fst (onSubmit_skills skillForm0 Ok (GetOk []) (skills0\<lparr>editingSkill := Some skill0\<rparr>)))) =
     (PUT, ''/api/skills/'' @ id_string (skill_id skill0))"
proof -
  note gallery_block = manager_pages_crud [THEN conjunct1]
  have gallery_a: "g_editingItem gallery0 = None"
    by (simp add: gallery0_def)
  have gallery_b: "g_editingItem (gallery0\<lparr>g_editingItem := Some galleryItem0\<rparr>) = Some galleryItem0"
    by (simp add: truthy_def galleryItem0_def)
  have gallery_post: "hd (requests (fst (onSubmit_gallery galleryForm0 Ok (GetOk []) gallery0))) = (POST, ''/api/gallery'')"
    by (rule gallery_block [THEN conjunct2, THEN conjunct1, THEN mp, OF gallery_a])
  have gallery_put: "hd (requests (fst (onSubmit_gallery galleryForm0 Ok (GetOk []) (gallery0\<lparr>g_editingItem := Some galleryItem0\<rparr>)))) =
     (PUT, ''/api/gallery/'' @ id_string (g_id galleryItem0))"
    by (rule gallery_block [THEN conjunct2, THEN conjunct2, THEN conjunct1, THEN mp, OF gallery_b])
  note certificates_block = manager_pages_crud [THEN conjunct2, THEN conjunct1]
  have certificates_a: "\<not> isEditMode certificates0"
    by (simp add: certificates0_def)
  have certificates_b: "isEditMode (certificates0\<lparr>editingCertificate := Some certificate0, isEditMode := True\<rparr>) \<and> editingCertificate (certificates0\<lparr>editingCertificate := Some certificate0, isEditMode := True\<rparr>) = Some certificate0"
    by (simp add: truthy_def certificate0_def)
  have certificates_post: "hd (requests (fst (onSubmit_certificates certificateForm0 Ok (GetOk []) certificates0))) = (POST, ''/api/certificates'')"
    by (rule certificates_block [THEN conjunct2, THEN conjunct1, THEN mp, OF certificates_a])
  have certificates_put: "hd (requests (fst (onSubmit_certificates certificateForm0 Ok (GetOk []) (certificates0\<lparr>editingCertificate := Some certificate0, isEditMode := True\<rparr>)))) =
     (PUT, ''/api/certificates/'' @ id_string (cert_id certificate0))"
    by (rule certificates_block [THEN conjunct2, THEN conjunct2, THEN conjunct1, THEN mp, OF certificates_b])
  note courses_block = manager_pages_crud [THEN conjunct2, THEN conjunct2, THEN conjunct1]
  have courses_a: "editingCourse courses0 = None"
    by (simp add: courses0_def)
  have courses_b: "editingCourse (courses0\<lparr>editingCourse := Some course0\<rparr>) = Some course0 \<and> truthy (course_id course0)"
    by (simp add: truthy_def course0_def)
  have courses_post: "hd (requests (fst (onSubmit_courses courseForm0 Ok (GetOk []) courses0))) = (POST, ''/api/courses'')"
    by (rule courses_block [THEN conjunct2, THEN conjunct1, THEN mp, OF courses_a])
  have courses_put: "hd (requests (fst (onSubmit_courses courseForm0 Ok (GetOk []) (courses0\<lparr>editingCourse := Some course0\<rparr>)))) =
     (PUT, ''/api/courses/'' @ id_string (course_id course0))"
    by (rule courses_block [THEN conjunct2, THEN conjunct2, THEN conjunct1, THEN mp, OF courses_b])
  note career_block = manager_pages_crud [THEN conjunct2, THEN conjunct2, THEN conjunct2, THEN conjunct1]
  have career_a: "career_editingItem career0 = None"
    by (simp add: career0_def)
  have career_b: "career_editingItem (career0\<lparr>career_editingItem := Some (job0 ''A'' ''2020-05-01'')\<rparr>) = Some (job0 ''A'' ''2020-05-01'') \<and> truthy (career_id (job0 ''A'' ''2020-05-01''))"
    by (simp add: truthy_def job0_def)
  have career_post: "hd (requests (fst (onSubmit_career parse0 (careerForm0 False) Ok (GetOk []) career0))) = (POST, ''/api/career'')"
    by (rule career_block [THEN conjunct2, THEN conjunct1, THEN mp, OF career_a])
  have career_put: "hd (requests (fst (onSubmit_career parse0 (careerForm0 False) Ok (GetOk []) (career0\<lparr>career_editingItem := Some (job0 ''A'' ''2020-05-01'')\<rparr>)))) =
     (PUT, ''/api/career/'' @ id_string (career_id (job0 ''A'' ''2020-05-01'')))"
    by (rule career_block [THEN conjunct2, THEN conjunct2, THEN conjunct1, THEN mp, OF career_b])
  note videos_block = manager_pages_crud [THEN conjunct2, THEN conjunct2, THEN conjunct2, THEN conjunct2, THEN conjunct1]
  have videos_a: "editingVideo videos0 = None"
    by (simp add: videos0_def)
  have videos_b: "editingVideo (videos0\<lparr>editingVideo := Some video0\<rparr>) = Some video0 \<and> truthy (video_id video0)"
    by (simp add: truthy_def video0_def)
  have videos_post: "hd (requests (fst (onSubmit_videos videoForm0 Ok (GetOk []) videos0))) = (POST, ''/api/videos'')"
    by (rule videos_block [THEN conjunct2, THEN conjunct1, THEN mp, OF videos_a])
  have videos_put: "hd (requests (fst (onSubmit_videos videoForm0 Ok (GetOk []) (videos0\<lparr>editingVideo := Some video0\<rparr>)))) =
     (PUT, ''/api/videos/'' @ id_string (video_id video0))"
    by (rule videos_block [THEN conjunct2, THEN conjunct2, THEN conjunct1, THEN mp, OF videos_b])
  note skills_block = manager_pages_crud [THEN conjunct2, THEN conjunct2, THEN conjunct2, THEN conjunct2, THEN conjunct2, THEN conjunct1]
  have skills_a: "editingSkill skills0 = None"
    by (simp add: skills0_def)
  have skills_b: "editingSkill (skills0\<lparr>editingSkill := Some skill0\<rparr>) = Some skill0 \<and> truthy (skill_id skill0)"
    by (simp add: truthy_def skill0_def)
  have skills_post: "hd (requests (fst (onSubmit_skills skillForm0 Ok (GetOk []) skills0))) = (POST, ''/api/skills'')"
    by (rule skills_block [THEN conjunct2, THEN conjunct1, THEN mp, OF skills_a])
  have skills_put: "hd (requests (fst (onSubmit_skills skillForm0 Ok (GetOk []) (skills0\<lparr>editingSkill := Some skill0\<rparr>)))) =
     (PUT, ''/api/skills/'' @ id_string (skill_id skill0))"
    by (rule skills_block [THEN conjunct2, THEN conjunct2, THEN conjunct1, THEN mp, OF skills_b])
  from gallery_a gallery_post gallery_b gallery_put certificates_a certificates_post certificates_b certificates_put courses_a courses_post courses_b courses_put career_a career_post career_b career_put videos_a videos_post videos_b videos_put skills_a skills_post skills_b skills_put
  show ?thesis by (simp only: simp_thms)
qed

text \<open>
  C8 as stated covers every source file. \<open>Footer.tsx\<close> is a source file that renders a
  footer; it has no form, no list and issues no request.
\<close>

theorem footer_no_request_counterexample:
  "requests (fst (Footer today0 monthYear0)) = []"
  by (simp add: Footer_def)

end
